theory Spec2Isabelle
  imports Main "HOL-Library.Word"
begin

section \<open>Identities, property keys and JavaScript objects\<close>

text \<open>
  The call service (\<^verbatim>\<open>services/webrtc/webrtcService.js\<close>) is untyped JavaScript. A user
  identity reaches it as \<^verbatim>\<open>socket.userId = decoded.id\<close>, the \<^verbatim>\<open>id\<close> of the JWT payload,
  which the authentication route signs from a user table whose ids are the numbers
  \<^verbatim>\<open>1, 2, 3, userIdCounter++\<close>; the participants of a call come from the client's JSON and
  the front end declares \<^verbatim>\<open>id: string\<close>. An identity is therefore a number or a string,
  and \<^verbatim>\<open>===\<close>, \<^verbatim>\<open>Array.prototype.includes\<close> and the keys of a \<^verbatim>\<open>Map\<close> tell the two
  apart: \<open>Num 1\<close> and \<open>Str ''1''\<close> are different values. A numeric identity is a counter
  value: a non-negative integer below \<open>2^53\<close>, the range in which a JavaScript number holds
  every integer exactly and prints it in plain decimal. The type of 53-bit words is that
  range.
\<close>

datatype user_id = Num "53 word" | Str string

text \<open>
  A property key of a plain object is always a string: \<^verbatim>\<open>obj[k]\<close> converts \<^verbatim>\<open>k\<close> with
  \<^verbatim>\<open>String(k)\<close>, for reading and for writing alike.
\<close>

definition digit_char :: "nat \<Rightarrow> char" where
  "digit_char d = ''0123456789'' ! (d mod 10)"

function string_of_nat :: "nat \<Rightarrow> string" where
  "string_of_nat n =
     (if n < 10 then [digit_char n] else string_of_nat (n div 10) @ [digit_char (n mod 10)])"
  by pat_completeness auto
termination
  by (relation "measure (\<lambda>n. n)") auto

declare string_of_nat.simps [simp del]

fun key_of :: "user_id \<Rightarrow> string" where
  "key_of (Num n) = string_of_nat (unat n)"
| "key_of (Str s) = s"

text \<open>
  A plain object used as a dictionary (\<^verbatim>\<open>call.connectionStatus\<close>, created as \<^verbatim>\<open>{}\<close>) is an
  association list of its own properties, one entry per key. \<open>setOwn\<close> overwrites the entry
  of an existing key where it stands and adds a new key at the end.

  \<open>setProp\<close> is the assignment \<^verbatim>\<open>obj[k] = v\<close> of a string \<^verbatim>\<open>v\<close>. The key \<^verbatim>\<open>__proto__\<close> is
  the accessor that \<^verbatim>\<open>Object.prototype\<close> provides: assigning a string to it is ignored and
  creates no property. Every other key, the names of the methods of \<^verbatim>\<open>Object.prototype\<close>
  included, gets an own property.

  \<open>getProp\<close> is the read \<^verbatim>\<open>obj[k]\<close>, as far as the service looks at it: the value when it is
  one that was assigned, and \<open>None\<close> when it is anything else, that is \<^verbatim>\<open>undefined\<close>, or a
  member of \<^verbatim>\<open>Object.prototype\<close> (which \<^verbatim>\<open>obj['__proto__']\<close> always is). The service only
  compares the value read with \<^verbatim>\<open>'connected'\<close>.

  JavaScript enumerates integer-like keys before the others, in ascending order; \<open>keys\<close>
  lists them in the order of their creation. The service only counts the enumerated entries
  and reads the single element of a one-element enumeration, so no result modelled here
  depends on that order.
\<close>

fun setOwn :: "(string \<times> 'v) list \<Rightarrow> string \<Rightarrow> 'v \<Rightarrow> (string \<times> 'v) list" where
  "setOwn [] k v = [(k, v)]"
| "setOwn ((k', v') # kvs) k v =
     (if k' = k then (k, v) # kvs else (k', v') # setOwn kvs k v)"

definition setProp :: "(string \<times> 'v) list \<Rightarrow> string \<Rightarrow> 'v \<Rightarrow> (string \<times> 'v) list" where
  "setProp obj k v = (if k = ''__proto__'' then obj else setOwn obj k v)"

definition getProp :: "(string \<times> 'v) list \<Rightarrow> string \<Rightarrow> 'v option" where
  "getProp obj k = (if k = ''__proto__'' then None else map_of obj k)"

definition keys :: "(string \<times> 'v) list \<Rightarrow> string list" where
  "keys obj = map fst obj"

section \<open>Data model\<close>

datatype connection_state = Pending | Connected | Disconnected

datatype call_status = Initiating | Active | Ended

datatype recording_status = Recording | Completed

text \<open>Times are \<^verbatim>\<open>Date\<close> values, taken as milliseconds since the epoch.\<close>

record recording =
  recId :: string
  recPath :: string
  recStatus :: recording_status
  recStartTime :: nat
  recEndTime :: "nat option"
  recSize :: nat

record message =
  msgType :: string
  msgUserId :: user_id
  msgPayload :: string
  msgTimestamp :: nat

record call =
  callId :: string
  initiatorId :: user_id
  participants :: "user_id list"
  callType :: string
  title :: string
  status :: call_status
  startTime :: nat
  endTime :: "nat option"
  duration :: int
  callRecording :: "recording option"
  messages :: "message list"
  connectionStatus :: "(string \<times> connection_state) list"

text \<open>An entry of \<^verbatim>\<open>call_history.json\<close>, as \<^verbatim>\<open>saveCallToHistory\<close> builds it.\<close>

record call_history =
  histId :: string
  histInitiatorId :: user_id
  histParticipants :: "user_id list"
  histType :: string
  histTitle :: string
  histStartTime :: nat
  histEndTime :: "nat option"
  histDuration :: int
  histRecording :: "recording option"
  histParticipantCount :: nat
  histStatus :: call_status

text \<open>
  The state of the \<^verbatim>\<open>WebRTCService\<close> singleton: its two \<^verbatim>\<open>Map\<close>s, and the part of the
  file system it reads and writes under \<^verbatim>\<open>recordingsPath\<close>: the history file (\<open>None\<close> while
  it does not exist) and the recording files, each a sequence of bytes. File operations are
  taken to succeed; the \<^verbatim>\<open>catch\<close> branches for input/output exceptions are not modelled.
\<close>

record service =
  activeCalls :: "string \<rightharpoonup> call"
  userConnections :: "user_id \<rightharpoonup> string"
  historyFile :: "call_history list option"
  recordingFiles :: "string \<rightharpoonup> string"

text \<open>
  The \<^verbatim>\<open>error\<close> strings of the service's failure results and of the handler's
  \<^verbatim>\<open>call:error\<close> events.
\<close>

datatype error =
    CallNotFound                    \<comment> \<open>\<^verbatim>\<open>'Call not found'\<close>\<close>
  | UserNotInvited                  \<comment> \<open>\<^verbatim>\<open>'User not invited to this call'\<close>\<close>
  | AlreadyRecording                \<comment> \<open>\<^verbatim>\<open>'Call is already being recorded'\<close>\<close>
  | NoActiveRecordingFound          \<comment> \<open>\<^verbatim>\<open>'No active recording found'\<close>\<close>
  | NoActiveRecording               \<comment> \<open>\<^verbatim>\<open>'No active recording'\<close>\<close>
  | OnlyInitiatorCanEnd             \<comment> \<open>\<^verbatim>\<open>'Only call initiator can end the call'\<close>\<close>
  | OnlyInitiatorCanStartRecording  \<comment> \<open>\<^verbatim>\<open>'Only call initiator can start recording'\<close>\<close>
  | OnlyInitiatorCanStopRecording   \<comment> \<open>\<^verbatim>\<open>'Only call initiator can stop recording'\<close>\<close>

section \<open>The call service\<close>

text \<open>
  The recordings directory, \<^verbatim>\<open>uploads/recordings\<close> under the root of the back end, written
  relative to that root.
\<close>

definition recordingsPath :: string where
  "recordingsPath = ''uploads/recordings''"

definition path_join :: "string \<Rightarrow> string \<Rightarrow> string" where
  "path_join dir name = dir @ ''/'' @ name"

text \<open>\<^verbatim>\<open>title || 'Call'\<close>: a missing or empty title is replaced.\<close>

definition title_or_default :: "string option \<Rightarrow> string" where
  "title_or_default t = (case t of None \<Rightarrow> ''Call'' | Some x \<Rightarrow> if x = [] then ''Call'' else x)"

definition initiateCall ::
  "nat \<Rightarrow> string \<Rightarrow> user_id \<Rightarrow> user_id list \<Rightarrow> string \<Rightarrow> string option \<Rightarrow> service \<Rightarrow> call \<times> service"
where
  "initiateCall now cid initiator parts ty ttl s =
     (let c = \<lparr> callId = cid, initiatorId = initiator, participants = parts, callType = ty,
                title = title_or_default ttl, status = Initiating, startTime = now,
                endTime = None, duration = 0, callRecording = None, messages = [],
                connectionStatus = foldl (\<lambda>obj p. setProp obj (key_of p) Pending) [] parts \<rparr>
      in (c, s\<lparr>activeCalls := (activeCalls s)(cid \<mapsto> c)\<rparr>))"

definition connectedCount :: "(string \<times> connection_state) list \<Rightarrow> nat" where
  "connectedCount obj = length (filter (\<lambda>st. st = Connected) (map snd obj))"

definition joinCall ::
  "nat \<Rightarrow> string \<Rightarrow> user_id \<Rightarrow> string \<Rightarrow> service \<Rightarrow> (error + call \<times> nat) \<times> service"
where
  "joinCall now cid uid socketId s =
     (case activeCalls s cid of
        None \<Rightarrow> (Inl CallNotFound, s)
      | Some c \<Rightarrow>
          if uid \<notin> set (participants c) \<and> initiatorId c \<noteq> uid then (Inl UserNotInvited, s)
          else
            let c1 = c\<lparr>connectionStatus := setProp (connectionStatus c) (key_of uid) Connected\<rparr>;
                allConnected =
                  list_all (\<lambda>p. getProp (connectionStatus c1) (key_of p) = Some Connected)
                    (participants c1);
                c2 = (if allConnected \<and> status c1 = Initiating
                      then c1\<lparr>status := Active, startTime := now\<rparr> else c1)
            in (Inr (c2, connectedCount (connectionStatus c2)),
                s\<lparr>activeCalls := (activeCalls s)(cid \<mapsto> c2),
                  userConnections := (userConnections s)(uid \<mapsto> socketId)\<rparr>))"

definition call_history_of :: "call \<Rightarrow> call_history" where
  "call_history_of c =
     \<lparr> histId = callId c, histInitiatorId = initiatorId c, histParticipants = participants c,
       histType = callType c, histTitle = title c, histStartTime = startTime c,
       histEndTime = endTime c, histDuration = duration c, histRecording = callRecording c,
       histParticipantCount = length (participants c), histStatus = status c \<rparr>"

text \<open>\<^verbatim>\<open>history.slice(-100)\<close>: the last hundred entries.\<close>

definition saveCallToHistory :: "call \<Rightarrow> service \<Rightarrow> service" where
  "saveCallToHistory c s =
     (let existing = (case historyFile s of None \<Rightarrow> [] | Some h \<Rightarrow> h);
          history = existing @ [call_history_of c];
          kept = (if length history > 100 then drop (length history - 100) history else history)
      in s\<lparr>historyFile := Some kept\<rparr>)"

definition endCall :: "nat \<Rightarrow> string \<Rightarrow> service \<Rightarrow> (error + call) \<times> service" where
  "endCall now cid s =
     (case activeCalls s cid of
        None \<Rightarrow> (Inl CallNotFound, s)
      | Some c \<Rightarrow>
          let c1 = c\<lparr>status := Ended, endTime := Some now,
                     duration := int now - int (startTime c)\<rparr>;
              s1 = saveCallToHistory c1 s;
              s2 = s1\<lparr>activeCalls := (activeCalls s1)(cid := None)\<rparr>;
              s3 = s2\<lparr>userConnections :=
                        foldl (\<lambda>m p. m(p := None)) (userConnections s2) (participants c1)\<rparr>
          in (Inr c1, s3))"

text \<open>
  \<^verbatim>\<open>leaveCall\<close> compares the enumerated key, a string, with \<^verbatim>\<open>call.initiatorId\<close> by
  \<^verbatim>\<open>===\<close>. The call it returns is the object \<^verbatim>\<open>endCall\<close> has just mutated, when it ran.
\<close>

definition leaveCall ::
  "nat \<Rightarrow> string \<Rightarrow> user_id \<Rightarrow> service \<Rightarrow> (error + call \<times> nat) \<times> service"
where
  "leaveCall now cid uid s =
     (case activeCalls s cid of
        None \<Rightarrow> (Inl CallNotFound, s)
      | Some c \<Rightarrow>
          let c1 = c\<lparr>connectionStatus := setProp (connectionStatus c) (key_of uid) Disconnected\<rparr>;
              s1 = s\<lparr>activeCalls := (activeCalls s)(cid \<mapsto> c1),
                     userConnections := (userConnections s)(uid := None)\<rparr>;
              connectedUsers =
                map fst (filter (\<lambda>(k, st). st = Connected) (connectionStatus c1))
          in if length connectedUsers = 0 \<or>
                (length connectedUsers = 1 \<and> Str (connectedUsers ! 0) = initiatorId c1)
             then (case endCall now cid s1 of
                     (Inr c2, s2) \<Rightarrow> (Inr (c2, length connectedUsers), s2)
                   | (Inl e, s2) \<Rightarrow> (Inr (c1, length connectedUsers), s2))
             else (Inr (c1, length connectedUsers), s1))"

definition is_recording :: "call \<Rightarrow> bool" where
  "is_recording c = (case callRecording c of None \<Rightarrow> False | Some r \<Rightarrow> recStatus r = Recording)"

definition startRecording :: "nat \<Rightarrow> string \<Rightarrow> service \<Rightarrow> (error + recording) \<times> service" where
  "startRecording now cid s =
     (case activeCalls s cid of
        None \<Rightarrow> (Inl CallNotFound, s)
      | Some c \<Rightarrow>
          if is_recording c then (Inl AlreadyRecording, s)
          else
            let recordingId = cid @ ''_'' @ string_of_nat now;
                r = \<lparr> recId = recordingId,
                      recPath = path_join recordingsPath (recordingId @ ''.webm''),
                      recStatus = Recording, recStartTime = now, recEndTime = None,
                      recSize = 0 \<rparr>
            in (Inr r, s\<lparr>activeCalls := (activeCalls s)(cid \<mapsto> c\<lparr>callRecording := Some r\<rparr>)\<rparr>))"

text \<open>The size is read from the recording file when that file exists.\<close>

definition stopRecording :: "nat \<Rightarrow> string \<Rightarrow> service \<Rightarrow> (error + recording) \<times> service" where
  "stopRecording now cid s =
     (case activeCalls s cid of
        None \<Rightarrow> (Inl CallNotFound, s)
      | Some c \<Rightarrow>
          (case callRecording c of
             None \<Rightarrow> (Inl NoActiveRecordingFound, s)
           | Some r \<Rightarrow>
               if recStatus r \<noteq> Recording then (Inl NoActiveRecordingFound, s)
               else
                 let r1 = r\<lparr>recStatus := Completed, recEndTime := Some now\<rparr>;
                     r2 = (case recordingFiles s (recPath r1) of
                             None \<Rightarrow> r1
                           | Some bytes \<Rightarrow> r1\<lparr>recSize := length bytes\<rparr>)
                 in (Inr r2,
                     s\<lparr>activeCalls := (activeCalls s)(cid \<mapsto> c\<lparr>callRecording := Some r2\<rparr>)\<rparr>)))"

text \<open>\<^verbatim>\<open>fs.appendFileSync\<close> creates the file when it does not exist.\<close>

definition saveRecordingChunk :: "string \<Rightarrow> string \<Rightarrow> service \<Rightarrow> (error + unit) \<times> service" where
  "saveRecordingChunk cid chunk s =
     (case activeCalls s cid of
        None \<Rightarrow> (Inl NoActiveRecording, s)
      | Some c \<Rightarrow>
          (case callRecording c of
             None \<Rightarrow> (Inl NoActiveRecording, s)
           | Some r \<Rightarrow>
               if recStatus r \<noteq> Recording then (Inl NoActiveRecording, s)
               else
                 let old = (case recordingFiles s (recPath r) of None \<Rightarrow> [] | Some b \<Rightarrow> b)
                 in (Inr (), s\<lparr>recordingFiles := (recordingFiles s)(recPath r \<mapsto> old @ chunk)\<rparr>)))"

definition getActiveCall :: "string \<Rightarrow> service \<Rightarrow> error + call" where
  "getActiveCall cid s = (case activeCalls s cid of None \<Rightarrow> Inl CallNotFound | Some c \<Rightarrow> Inr c)"

definition handleSignaling ::
  "nat \<Rightarrow> string \<Rightarrow> string \<Rightarrow> user_id \<Rightarrow> string \<Rightarrow> service \<Rightarrow> (error + message \<times> call) \<times> service"
where
  "handleSignaling now cid ty uid payload s =
     (case activeCalls s cid of
        None \<Rightarrow> (Inl CallNotFound, s)
      | Some c \<Rightarrow>
          let m = \<lparr> msgType = ty, msgUserId = uid, msgPayload = payload, msgTimestamp = now \<rparr>;
              c1 = c\<lparr>messages := messages c @ [m]\<rparr>
          in (Inr (m, c1), s\<lparr>activeCalls := (activeCalls s)(cid \<mapsto> c1)\<rparr>))"

section \<open>The socket handler\<close>

text \<open>
  What a handler of \<^verbatim>\<open>websocket/webrtcHandler.js\<close> sends, and to whom: \<^verbatim>\<open>socket.emit\<close>
  answers the requesting socket, \<^verbatim>\<open>socket.to(room).emit\<close> reaches the sockets of a room
  other than the requesting one, \<^verbatim>\<open>this.io.to(room).emit\<close> reaches all sockets of a room.
  Room membership (\<^verbatim>\<open>socket.join\<close>, \<^verbatim>\<open>socket.leave\<close>) is state of the transport and is
  not modelled. The requester is \<^verbatim>\<open>socket.userId\<close>.
\<close>

datatype recipient = ToSender | ToOthersIn string | ToAllIn string

datatype event =
    CallError error
  | CallEnded call
  | WebrtcSignal string string user_id string
  | RecordingStarted recording
  | RecordingStopped recording

datatype action = Emit recipient event | AnalyzeCallRecording string recording call

definition on_call_end :: "nat \<Rightarrow> user_id \<Rightarrow> string \<Rightarrow> service \<Rightarrow> action list \<times> service" where
  "on_call_end now userId cid s =
     (case getActiveCall cid s of
        Inl e \<Rightarrow> ([Emit ToSender (CallError CallNotFound)], s)
      | Inr c \<Rightarrow>
          if initiatorId c \<noteq> userId then ([Emit ToSender (CallError OnlyInitiatorCanEnd)], s)
          else (case endCall now cid s of
                  (Inr c1, s1) \<Rightarrow> ([Emit (ToAllIn cid) (CallEnded c1)], s1)
                | (Inl e, s1) \<Rightarrow> ([Emit ToSender (CallError e)], s1)))"

definition on_call_start_recording ::
  "nat \<Rightarrow> user_id \<Rightarrow> string \<Rightarrow> service \<Rightarrow> action list \<times> service"
where
  "on_call_start_recording now userId cid s =
     (case getActiveCall cid s of
        Inl e \<Rightarrow> ([Emit ToSender (CallError CallNotFound)], s)
      | Inr c \<Rightarrow>
          if initiatorId c \<noteq> userId
          then ([Emit ToSender (CallError OnlyInitiatorCanStartRecording)], s)
          else (case startRecording now cid s of
                  (Inr r, s1) \<Rightarrow> ([Emit (ToAllIn cid) (RecordingStarted r)], s1)
                | (Inl e, s1) \<Rightarrow> ([Emit ToSender (CallError e)], s1)))"

text \<open>
  The call handed to the analysis is the object fetched before \<^verbatim>\<open>stopRecording\<close> ran, so
  it already shows the stopped recording.
\<close>

definition on_call_stop_recording ::
  "nat \<Rightarrow> user_id \<Rightarrow> string \<Rightarrow> service \<Rightarrow> action list \<times> service"
where
  "on_call_stop_recording now userId cid s =
     (case getActiveCall cid s of
        Inl e \<Rightarrow> ([Emit ToSender (CallError CallNotFound)], s)
      | Inr c \<Rightarrow>
          if initiatorId c \<noteq> userId
          then ([Emit ToSender (CallError OnlyInitiatorCanStopRecording)], s)
          else (case stopRecording now cid s of
                  (Inr r, s1) \<Rightarrow>
                    (Emit (ToAllIn cid) (RecordingStopped r) #
                       (if recPath r \<noteq> []
                        then [AnalyzeCallRecording cid r (c\<lparr>callRecording := Some r\<rparr>)] else []),
                     s1)
                | (Inl e, s1) \<Rightarrow> ([Emit ToSender (CallError e)], s1)))"

text \<open>
  \<^verbatim>\<open>if (targetUserId)\<close>: a missing target, the empty string and the number zero are falsy.
  The room of a user is \<^verbatim>\<open>`user_${targetUserId}`\<close>. A failed \<^verbatim>\<open>handleSignaling\<close> sends
  nothing.
\<close>

definition truthy :: "user_id option \<Rightarrow> bool" where
  "truthy t = (case t of None \<Rightarrow> False | Some (Num n) \<Rightarrow> n \<noteq> 0 | Some (Str x) \<Rightarrow> x \<noteq> [])"

definition user_room :: "user_id \<Rightarrow> string" where
  "user_room u = ''user_'' @ key_of u"

definition on_webrtc_signal ::
  "nat \<Rightarrow> user_id \<Rightarrow> string \<Rightarrow> string \<Rightarrow> user_id option \<Rightarrow> string \<Rightarrow> service
     \<Rightarrow> action list \<times> service"
where
  "on_webrtc_signal now userId cid ty targetUserId payload s =
     (case handleSignaling now cid ty userId payload s of
        (Inr res, s1) \<Rightarrow>
          (if truthy targetUserId
           then [Emit (ToOthersIn (user_room (the targetUserId))) (WebrtcSignal cid ty userId payload)]
           else [Emit (ToOthersIn cid) (WebrtcSignal cid ty userId payload)],
           s1)
      | (Inl e, s1) \<Rightarrow> ([], s1))"

section \<open>Histories, operation sequences and scenarios\<close>

text \<open>The entries of the history file, as \<^verbatim>\<open>saveCallToHistory\<close> and \<^verbatim>\<open>getCallHistory\<close> read it.\<close>

definition history_entries :: "service \<Rightarrow> call_history list" where
  "history_entries s = (case historyFile s of None \<Rightarrow> [] | Some h \<Rightarrow> h)"

text \<open>
  A sequence of \<^verbatim>\<open>joinCall\<close> and \<^verbatim>\<open>leaveCall\<close> requests for one call, each with the time at
  which it runs. \<open>writes_entry\<close> tells the requests that get as far as the assignment to
  \<^verbatim>\<open>call.connectionStatus[userId]\<close>: every leave, and every join that passes the invitation
  check.
\<close>

datatype op = Join nat user_id string | Leave nat user_id

fun apply_op :: "string \<Rightarrow> service \<Rightarrow> op \<Rightarrow> service" where
  "apply_op cid s (Join now uid socketId) = snd (joinCall now cid uid socketId s)"
| "apply_op cid s (Leave now uid) = snd (leaveCall now cid uid s)"

definition run_ops :: "string \<Rightarrow> op list \<Rightarrow> service \<Rightarrow> service" where
  "run_ops cid ops s = foldl (apply_op cid) s ops"

fun op_user :: "op \<Rightarrow> user_id" where
  "op_user (Join now uid socketId) = uid"
| "op_user (Leave now uid) = uid"

fun writes_entry :: "call \<Rightarrow> op \<Rightarrow> bool" where
  "writes_entry c (Join now uid socketId) = (uid \<in> set (participants c) \<or> initiatorId c = uid)"
| "writes_entry c (Leave now uid) = True"

text \<open>
  For sequences that consist of joins by invited identities only, and the condition
  \<^verbatim>\<open>allConnected\<close> of \<^verbatim>\<open>joinCall\<close> as a predicate of a call.
\<close>

fun invited_join :: "call \<Rightarrow> op \<Rightarrow> bool" where
  "invited_join c (Join now uid socketId) = (uid \<in> set (participants c) \<or> initiatorId c = uid)"
| "invited_join c (Leave now uid) = False"

definition all_participants_connected :: "call \<Rightarrow> bool" where
  "all_participants_connected c =
     list_all (\<lambda>p. getProp (connectionStatus c) (key_of p) = Some Connected) (participants c)"

text \<open>
  The service as its constructor leaves it, on a file system without a history file.
\<close>

definition initial_service :: service where
  "initial_service =
     \<lparr> activeCalls = Map.empty, userConnections = Map.empty, historyFile = None,
       recordingFiles = Map.empty \<rparr>"

text \<open>The audio call of initiator \<open>A\<close> with participants \<open>B\<close> and \<open>C\<close>.\<close>

definition call_abc :: call where
  "call_abc =
     fst (initiateCall 0 ''c1'' (Str ''A'') [Str ''B'', Str ''C''] ''audio'' None initial_service)"

definition svc_abc :: service where
  "svc_abc =
     snd (initiateCall 0 ''c1'' (Str ''A'') [Str ''B'', Str ''C''] ''audio'' None initial_service)"

text \<open>
  The same call after \<open>A\<close> and then \<open>B\<close> have joined: the state, and the call it holds.
\<close>

definition svc_ab :: service where
  "svc_ab =
     snd (joinCall 2 ''c1'' (Str ''B'') ''sock-B''
            (snd (joinCall 1 ''c1'' (Str ''A'') ''sock-A'' svc_abc)))"

definition call_ab :: call where
  "call_ab =
     call_abc\<lparr>connectionStatus := [(''B'', Connected), (''C'', Pending), (''A'', Connected)]\<rparr>"

text \<open>A call of initiator \<open>A\<close> with the single participant \<open>B\<close>.\<close>

definition svc_a_b :: service where
  "svc_a_b = snd (initiateCall 0 ''c2'' (Str ''A'') [Str ''B''] ''audio'' None initial_service)"

text \<open>The call of \<open>A\<close>, \<open>B\<close>, \<open>C\<close> with a recording started at time 1.\<close>

definition svc_rec :: service where
  "svc_rec = snd (startRecording 1 ''c1'' svc_abc)"

definition call_rec :: call where
  "call_rec =
     call_abc\<lparr>callRecording :=
       Some \<lparr> recId = ''c1_1'', recPath = ''uploads/recordings/c1_1.webm'',
              recStatus = Recording, recStartTime = 1, recEndTime = None, recSize = 0 \<rparr>\<rparr>"

text \<open>
  Two live calls that share the participant \<open>B\<close>: the call of \<open>A\<close>, \<open>B\<close>, \<open>C\<close>, and a video
  call of initiator \<open>D\<close> which \<open>B\<close> has joined.
\<close>

definition svc_two :: service where
  "svc_two =
     snd (joinCall 2 ''c2'' (Str ''B'') ''sock-B''
            (snd (initiateCall 1 ''c2'' (Str ''D'') [Str ''B''] ''video'' None svc_abc)))"

text \<open>
  Two calls at the edges of the object model: one whose numeric initiator 1 has the same key
  as its only participant, the string \<open>''1''\<close>, and one whose only participant is the string
  \<open>''__proto__''\<close>.
\<close>

definition call_collide :: call where
  "call_collide =
     fst (initiateCall 0 ''k1'' (Num 1) [Str ''1''] ''audio'' None initial_service)"

definition svc_collide :: service where
  "svc_collide =
     snd (initiateCall 0 ''k1'' (Num 1) [Str ''1''] ''audio'' None initial_service)"

definition call_proto :: call where
  "call_proto =
     fst (initiateCall 0 ''p1'' (Str ''A'') [Str ''__proto__''] ''audio'' None initial_service)"

definition svc_proto :: service where
  "svc_proto =
     snd (initiateCall 0 ''p1'' (Str ''A'') [Str ''__proto__''] ''audio'' None initial_service)"

text \<open>
  Numeric identities, as the authentication route issues them: user 1 calls user 2, and both
  have joined.
\<close>

definition svc_12 :: service where
  "svc_12 =
     snd (joinCall 2 ''n1'' (Num 2) ''sock-2''
            (snd (joinCall 1 ''n1'' (Num 1) ''sock-1''
                   (snd (initiateCall 0 ''n1'' (Num 1) [Num 2] ''audio'' None initial_service)))))"

text \<open>
  A sequence of requests on the call of \<open>A\<close>, \<open>B\<close>, \<open>C\<close>: \<open>B\<close> and the initiator join, an
  identity \<open>Z\<close> that was never invited leaves, an uninvited \<open>Y\<close> tries to join, and the
  identity \<open>''__proto__''\<close> leaves. The call they leave behind is \<open>call_after_ops\<close>.
\<close>

definition ops_example :: "op list" where
  "ops_example =
     [Join 1 (Str ''B'') ''sock-B'', Join 2 (Str ''A'') ''sock-A'', Leave 3 (Str ''Z''),
      Join 4 (Str ''Y'') ''sock-Y'', Leave 5 (Str ''__proto__'')]"

definition call_after_ops :: call where
  "call_after_ops =
     call_abc\<lparr>connectionStatus :=
       [(''B'', Connected), (''C'', Pending), (''A'', Connected), (''Z'', Disconnected)]\<rparr>"

section \<open>Properties of objects and maps\<close>

lemma map_of_setOwn: "map_of (setOwn obj k v) k' = (if k' = k then Some v else map_of obj k')"
  by (induction obj) auto

lemma keys_setOwn:
  "keys (setOwn obj k v) = (if k \<in> set (keys obj) then keys obj else keys obj @ [k])"
  by (induction obj) (force simp: keys_def)+

lemma getProp_Nil: "getProp [] k = None"
  by (simp add: getProp_def)

lemma getProp_proto: "getProp obj ''__proto__'' = None"
  by (simp add: getProp_def)

lemma keys_Nil: "keys [] = []"
  by (simp add: keys_def)

lemma getProp_setProp:
  "getProp (setProp obj k v) k' =
     (if k' = k \<and> k \<noteq> ''__proto__'' then Some v else getProp obj k')"
  by (simp add: getProp_def setProp_def map_of_setOwn)

lemma keys_setProp:
  "set (keys (setProp obj k v)) =
     (if k = ''__proto__'' then set (keys obj) else insert k (set (keys obj)))"
  by (auto simp: setProp_def keys_setOwn)

lemma distinct_keys_setProp: "distinct (keys obj) \<Longrightarrow> distinct (keys (setProp obj k v))"
  by (simp add: setProp_def keys_setOwn)

lemma getProp_all_pending:
  "getProp (foldl (\<lambda>obj p. setProp obj (key_of p) Pending) acc ps) k =
     (if k \<in> key_of ` set ps \<and> k \<noteq> ''__proto__'' then Some Pending else getProp acc k)"
  by (induction ps arbitrary: acc) (auto simp: getProp_setProp)

lemma keys_all_pending:
  "set (keys (foldl (\<lambda>obj p. setProp obj (key_of p) Pending) acc ps)) =
     set (keys acc) \<union> (key_of ` set ps - {''__proto__''})"
  by (induction ps arbitrary: acc) (auto simp: keys_setProp)

text \<open>The key of a numeric identity is a string of digits, never \<^verbatim>\<open>__proto__\<close>.\<close>

lemma last_string_of_nat: "last (string_of_nat n) = digit_char (n mod 10)"
  by (subst string_of_nat.simps) (simp add: digit_char_def)

lemma digit_char_not_underscore: "digit_char d \<noteq> CHR ''_''"
proof -
  have "digit_char d \<in> set ''0123456789''"
    unfolding digit_char_def by (rule nth_mem) simp
  then show ?thesis by auto
qed

lemma string_of_nat_1: "string_of_nat (Suc 0) = ''1''"
  by (simp add: string_of_nat.simps digit_char_def)

lemma key_of_1: "key_of (Num 1) = ''1''"
  by (simp add: string_of_nat_1)

lemma key_of_Num_not_proto: "key_of (Num n) \<noteq> ''__proto__''"
proof
  assume "key_of (Num n) = ''__proto__''"
  then have "last (string_of_nat (unat n)) = last ''__proto__''" by simp
  then show False by (simp add: last_string_of_nat digit_char_not_underscore)
qed

lemma foldl_delete:
  "foldl (\<lambda>m p. m(p := None)) m ps x = (if x \<in> set ps then None else m x)"
  by (induction ps arbitrary: m) auto

section \<open>Ending a call\<close>

lemma endCall_live:
  assumes "activeCalls s cid = Some c"
  shows "endCall now cid s =
     (Inr (c\<lparr>status := Ended, endTime := Some now, duration := int now - int (startTime c)\<rparr>),
      (saveCallToHistory
         (c\<lparr>status := Ended, endTime := Some now, duration := int now - int (startTime c)\<rparr>) s)
        \<lparr>activeCalls := (activeCalls s)(cid := None),
         userConnections := foldl (\<lambda>m p. m(p := None)) (userConnections s) (participants c)\<rparr>)"
  using assms by (simp add: endCall_def Let_def saveCallToHistory_def)

lemma endCall_not_live:
  "activeCalls s cid = None \<Longrightarrow> endCall now cid s = (Inl CallNotFound, s)"
  by (simp add: endCall_def)

lemma history_endCall:
  assumes "activeCalls s cid = Some c"
  shows "history_entries (snd (endCall now cid s)) =
           drop (length (history_entries s) + 1 - 100)
             (history_entries s @
              [call_history_of
                 (c\<lparr>status := Ended, endTime := Some now,
                    duration := int now - int (startTime c)\<rparr>)])"
  using assms
  by (simp add: endCall_live history_entries_def saveCallToHistory_def Let_def
           split: option.splits)

lemma live_abc: "activeCalls svc_abc ''c1'' = Some call_abc"
  by (simp add: svc_abc_def call_abc_def initiateCall_def Let_def)

section \<open>Creating a call\<close>

text \<open>
  Claim C1, as the service has it. \<^verbatim>\<open>initiateCall\<close> returns a call with status
  \<^verbatim>\<open>initiating\<close> whose \<^verbatim>\<open>connectionStatus\<close> has exactly the keys \<^verbatim>\<open>String(p)\<close> of the
  participants \<^verbatim>\<open>p\<close>, the key \<^verbatim>\<open>__proto__\<close> excepted, each \<^verbatim>\<open>pending\<close>. The loop runs over
  \<^verbatim>\<open>participants\<close> only: the initiator has an entry (\<^verbatim>\<open>pending\<close>) when the initiator's key
  is one of those keys, and no entry otherwise.
\<close>

theorem initiateCall_connectionStatus:
  "status (fst (initiateCall now cid i ps ty ttl s)) = Initiating \<and>
   set (keys (connectionStatus (fst (initiateCall now cid i ps ty ttl s)))) =
     key_of ` set ps - {''__proto__''} \<and>
   (\<forall>p \<in> set ps.
      getProp (connectionStatus (fst (initiateCall now cid i ps ty ttl s))) (key_of p) =
        (if key_of p = ''__proto__'' then None else Some Pending)) \<and>
   getProp (connectionStatus (fst (initiateCall now cid i ps ty ttl s))) (key_of i) =
     (if key_of i \<in> key_of ` set ps - {''__proto__''} then Some Pending else None)"
  by (auto simp: initiateCall_def Let_def getProp_all_pending keys_all_pending getProp_Nil
        keys_Nil)

theorem initiateCall_connectionStatus_witness:
  "status call_abc = Initiating \<and>
   set (keys (connectionStatus call_abc)) = {''B'', ''C''} \<and>
   getProp (connectionStatus call_abc) ''B'' = Some Pending \<and>
   getProp (connectionStatus call_abc) ''C'' = Some Pending \<and>
   getProp (connectionStatus call_abc) ''A'' = None \<and>
   set (keys (connectionStatus call_collide)) = {''1''} \<and>
   getProp (connectionStatus call_collide) (key_of (initiatorId call_collide)) = Some Pending \<and>
   set (keys (connectionStatus call_proto)) = {} \<and>
   getProp (connectionStatus call_proto) ''__proto__'' = None"
proof -
  have init: "initiatorId call_collide = Num 1"
    by (simp add: call_collide_def initiateCall_def Let_def)
  from initiateCall_connectionStatus
         [of 0 "''c1''" "Str ''A''" "[Str ''B'', Str ''C'']" "''audio''" None initial_service]
       initiateCall_connectionStatus
         [of 0 "''k1''" "Num 1" "[Str ''1'']" "''audio''" None initial_service]
       initiateCall_connectionStatus
         [of 0 "''p1''" "Str ''A''" "[Str ''__proto__'']" "''audio''" None initial_service]
  show ?thesis
    by (simp add: call_abc_def call_collide_def [symmetric] call_proto_def init string_of_nat_1)
qed

text \<open>
  In the scenario of initiator \<open>A\<close> and participants \<open>B\<close>, \<open>C\<close> the initiator's own entry is
  not \<^verbatim>\<open>pending\<close>: it does not exist.
\<close>

theorem initiator_entry_counterexample:
  "getProp (connectionStatus call_abc) (key_of (initiatorId call_abc)) \<noteq> Some Pending"
  by (simp add: call_abc_def initiateCall_def getProp_def setProp_def Let_def)

text \<open>
  Claim C8, as the service has it. \<^verbatim>\<open>initiateCall\<close> validates nothing and has no failure
  result: for every participants list and every type string it registers the call under its
  id, with status \<^verbatim>\<open>initiating\<close>, the participants and the type as given.
\<close>

theorem initiateCall_never_fails:
  "activeCalls (snd (initiateCall now cid i ps ty ttl s)) cid =
     Some (fst (initiateCall now cid i ps ty ttl s)) \<and>
   callId (fst (initiateCall now cid i ps ty ttl s)) = cid \<and>
   status (fst (initiateCall now cid i ps ty ttl s)) = Initiating \<and>
   participants (fst (initiateCall now cid i ps ty ttl s)) = ps \<and>
   callType (fst (initiateCall now cid i ps ty ttl s)) = ty"
  by (simp add: initiateCall_def Let_def)

theorem initiateCall_never_fails_witness:
  "activeCalls (snd (initiateCall 7 ''c9'' (Str ''A'') [] ''hologram'' None initial_service)) ''c9'' =
     Some (fst (initiateCall 7 ''c9'' (Str ''A'') [] ''hologram'' None initial_service)) \<and>
   participants (fst (initiateCall 7 ''c9'' (Str ''A'') [] ''hologram'' None initial_service)) = [] \<and>
   callType (fst (initiateCall 7 ''c9'' (Str ''A'') [] ''hologram'' None initial_service)) =
     ''hologram''"
  using initiateCall_never_fails [of 7 "''c9''" "Str ''A''" "[]" "''hologram''" None initial_service]
  by simp

text \<open>
  An empty participants list together with an unknown type: the call is in the registry.
\<close>

theorem initiateCall_invalid_counterexample:
  "map_option (\<lambda>c. (participants c, callType c, status c))
     (activeCalls (snd (initiateCall 7 ''c9'' (Str ''A'') [] ''hologram'' None initial_service))
        ''c9'')
   = Some ([], ''hologram'', Initiating)"
  by (simp add: initiateCall_def Let_def)

section \<open>Ending twice\<close>

text \<open>
  Claim C4. Ending a live call returns the ended call, removes it from the registry and
  appends one entry to the history (of which the last hundred are kept); ending it again
  finds no call, fails with \<^verbatim>\<open>'Call not found'\<close> and leaves the whole service state, history
  included, as it was.
\<close>

theorem endCall_idempotent:
  assumes "activeCalls s cid = Some c"
  shows "fst (endCall t1 cid s) =
           Inr (c\<lparr>status := Ended, endTime := Some t1, duration := int t1 - int (startTime c)\<rparr>) \<and>
         activeCalls (snd (endCall t1 cid s)) cid = None \<and>
         history_entries (snd (endCall t1 cid s)) =
           drop (length (history_entries s) + 1 - 100)
             (history_entries s @
              [call_history_of
                 (c\<lparr>status := Ended, endTime := Some t1,
                    duration := int t1 - int (startTime c)\<rparr>)]) \<and>
         endCall t2 cid (snd (endCall t1 cid s)) = (Inl CallNotFound, snd (endCall t1 cid s))"
  using assms
  by (simp add: history_endCall) (simp add: endCall_live endCall_not_live)

theorem endCall_idempotent_witness:
  "activeCalls svc_abc ''c1'' = Some call_abc \<and>
   history_entries svc_abc = [] \<and>
   history_entries (snd (endCall 5 ''c1'' svc_abc)) =
     [call_history_of (call_abc\<lparr>status := Ended, endTime := Some 5, duration := 5\<rparr>)] \<and>
   endCall 9 ''c1'' (snd (endCall 5 ''c1'' svc_abc)) =
     (Inl CallNotFound, snd (endCall 5 ''c1'' svc_abc)) \<and>
   history_entries (snd (endCall 9 ''c1'' (snd (endCall 5 ''c1'' svc_abc)))) =
     [call_history_of (call_abc\<lparr>status := Ended, endTime := Some 5, duration := 5\<rparr>)]"
proof -
  have none: "history_entries svc_abc = []"
    by (simp add: svc_abc_def initiateCall_def initial_service_def history_entries_def Let_def)
  have start: "startTime call_abc = 0"
    by (simp add: call_abc_def initiateCall_def Let_def)
  from endCall_idempotent [OF live_abc, of 5 9] live_abc none start show ?thesis
    by simp
qed

section \<open>The scenarios, evaluated\<close>

lemmas scenario_defs =
  svc_abc_def call_abc_def initial_service_def initiateCall_def joinCall_def leaveCall_def
  title_or_default_def getProp_def setProp_def connectedCount_def Let_def

lemma live_collide: "activeCalls svc_collide ''k1'' = Some call_collide"
  by (simp add: svc_collide_def call_collide_def initiateCall_def Let_def)

lemma live_proto: "activeCalls svc_proto ''p1'' = Some call_proto"
  by (simp add: svc_proto_def call_proto_def initiateCall_def Let_def)

lemma live_ab: "activeCalls svc_ab ''c1'' = Some call_ab"
  by (simp add: svc_ab_def call_ab_def scenario_defs)

lemma live_rec: "activeCalls svc_rec ''c1'' = Some call_rec"
  by (simp add: svc_rec_def call_rec_def startRecording_def is_recording_def recordingsPath_def
        path_join_def string_of_nat.simps digit_char_def scenario_defs)

lemma live_two: "activeCalls svc_two ''c1'' = Some call_abc"
  by (simp add: svc_two_def scenario_defs)

section \<open>Joining\<close>

text \<open>
  Claim C2, as the service has it. A join by an invited identity (a participant or the
  initiator) of a live call succeeds, records the socket and assigns \<^verbatim>\<open>connected\<close> under the
  identity's key; the identity's entry is then \<^verbatim>\<open>connected\<close>, unless the key is
  \<^verbatim>\<open>__proto__\<close>, which gets no entry; all other entries, and all fields of the call other
  than its connection status, status and start time, stay as they were. The call goes from \<^verbatim>\<open>initiating\<close> to \<^verbatim>\<open>active\<close>, and
  its start time is stamped, exactly when after that assignment the entry under the key of
  every participant is \<^verbatim>\<open>connected\<close>. Entries under other keys are not consulted: the
  initiator's entry counts only when the initiator's key is also the key of a participant.
  In every other case status and start time stay as they were.
\<close>

theorem joinCall_activates:
  assumes "activeCalls s cid = Some c"
    and "uid \<in> set (participants c) \<or> initiatorId c = uid"
  shows "\<exists>c'. joinCall now cid uid socketId s =
            (Inr (c', connectedCount (connectionStatus c')),
             s\<lparr>activeCalls := (activeCalls s)(cid \<mapsto> c'),
               userConnections := (userConnections s)(uid \<mapsto> socketId)\<rparr>) \<and>
          connectionStatus c' = setProp (connectionStatus c) (key_of uid) Connected \<and>
          getProp (connectionStatus c') (key_of uid) =
            (if key_of uid = ''__proto__'' then None else Some Connected) \<and>
          (\<forall>k. k \<noteq> key_of uid \<longrightarrow>
             getProp (connectionStatus c') k = getProp (connectionStatus c) k) \<and>
          c'\<lparr>connectionStatus := connectionStatus c, status := status c,
             startTime := startTime c\<rparr> = c \<and>
          status c' =
            (if status c = Initiating \<and>
                (\<forall>p \<in> set (participants c).
                   getProp (connectionStatus c') (key_of p) = Some Connected)
             then Active else status c) \<and>
          startTime c' =
            (if status c = Initiating \<and>
                (\<forall>p \<in> set (participants c).
                   getProp (connectionStatus c') (key_of p) = Some Connected)
             then now else startTime c)"
  using assms
  by (auto simp: joinCall_def Let_def list_all_iff getProp_setProp getProp_proto)

theorem joinCall_activates_witness:
  "activeCalls svc_ab ''c1'' = Some call_ab \<and>
   Str ''C'' \<in> set (participants call_ab) \<and>
   status call_ab = Initiating \<and>
   map_option (\<lambda>c. (status c, startTime c, getProp (connectionStatus c) ''C''))
     (activeCalls (snd (joinCall 3 ''c1'' (Str ''C'') ''sock-C'' svc_ab)) ''c1'') =
     Some (Active, 3, Some Connected) \<and>
   activeCalls svc_collide ''k1'' = Some call_collide \<and>
   initiatorId call_collide = Num 1 \<and> participants call_collide = [Str ''1''] \<and>
   map_option (\<lambda>c. (status c, startTime c, getProp (connectionStatus c) ''1''))
     (activeCalls (snd (joinCall 4 ''k1'' (Num 1) ''sock-1'' svc_collide)) ''k1'') =
     Some (Active, 4, Some Connected) \<and>
   activeCalls svc_proto ''p1'' = Some call_proto \<and>
   Str ''__proto__'' \<in> set (participants call_proto) \<and>
   map_option (\<lambda>c. (status c, startTime c, getProp (connectionStatus c) ''__proto__'',
                 keys (connectionStatus c)))
     (activeCalls (snd (joinCall 5 ''p1'' (Str ''__proto__'') ''sock-P'' svc_proto)) ''p1'') =
     Some (Initiating, 0, None, [])"
proof -
  have inv_c: "Str ''C'' \<in> set (participants call_ab) \<or> initiatorId call_ab = Str ''C''"
    by (simp add: call_ab_def scenario_defs)
  have abc: "participants call_ab = [Str ''B'', Str ''C'']" "status call_ab = Initiating"
    "startTime call_ab = 0"
    "connectionStatus call_ab = [(''B'', Connected), (''C'', Pending), (''A'', Connected)]"
    by (simp_all add: call_ab_def scenario_defs)
  have first: "map_option (\<lambda>c. (status c, startTime c, getProp (connectionStatus c) ''C''))
     (activeCalls (snd (joinCall 3 ''c1'' (Str ''C'') ''sock-C'' svc_ab)) ''c1'') =
     Some (Active, 3, Some Connected)"
    using joinCall_activates [OF live_ab inv_c, of 3 "''sock-C''"]
    by (auto simp: abc getProp_def setProp_def)
  have col: "participants call_collide = [Str ''1'']" "status call_collide = Initiating"
    "initiatorId call_collide = Num 1" "connectionStatus call_collide = [(''1'', Pending)]"
    by (simp_all add: call_collide_def initiateCall_def Let_def setProp_def)
  have inv_1: "Num 1 \<in> set (participants call_collide) \<or> initiatorId call_collide = Num 1"
    by (simp add: col)
  have second: "map_option (\<lambda>c. (status c, startTime c, getProp (connectionStatus c) ''1''))
     (activeCalls (snd (joinCall 4 ''k1'' (Num 1) ''sock-1'' svc_collide)) ''k1'') =
     Some (Active, 4, Some Connected)"
    using joinCall_activates [OF live_collide inv_1, of 4 "''sock-1''"]
    by (auto simp: col string_of_nat_1 getProp_def setProp_def)
  have pro: "participants call_proto = [Str ''__proto__'']" "status call_proto = Initiating"
    "startTime call_proto = 0" "connectionStatus call_proto = []"
    by (simp_all add: call_proto_def initiateCall_def Let_def setProp_def)
  have inv_p: "Str ''__proto__'' \<in> set (participants call_proto) \<or>
               initiatorId call_proto = Str ''__proto__''"
    by (simp add: pro)
  have third: "map_option (\<lambda>c. (status c, startTime c, getProp (connectionStatus c) ''__proto__'',
                 keys (connectionStatus c)))
     (activeCalls (snd (joinCall 5 ''p1'' (Str ''__proto__'') ''sock-P'' svc_proto)) ''p1'') =
     Some (Initiating, 0, None, [])"
    using joinCall_activates [OF live_proto inv_p, of 5 "''sock-P''"]
    by (auto simp: pro getProp_def setProp_def keys_def)
  from first second third live_ab live_collide live_proto abc col pro show ?thesis
    by simp
qed

text \<open>
  With the single participant \<open>B\<close>, the join of \<open>B\<close> activates the call although the
  initiator has not joined and has no entry. With the two participants \<open>B\<close> and \<open>C\<close>, the
  call is still \<^verbatim>\<open>initiating\<close> after the two distinct joins of \<open>A\<close> and \<open>B\<close>.
\<close>

theorem joinCall_activation_counterexample:
  "map_option (\<lambda>c. (status c, getProp (connectionStatus c) (key_of (initiatorId c))))
     (activeCalls (snd (joinCall 1 ''c2'' (Str ''B'') ''sock-B'' svc_a_b)) ''c2'') =
     Some (Active, None) \<and>
   map_option (\<lambda>c. (length (participants c), status c)) (activeCalls svc_ab ''c1'') =
     Some (2, Initiating)"
  by (simp add: svc_a_b_def svc_ab_def scenario_defs)

text \<open>
  Joins in sequence. While only invited identities join, entries only ever become
  \<^verbatim>\<open>connected\<close>, and the call is \<^verbatim>\<open>active\<close> after the sequence exactly when the sequence is
  not empty and every participant is connected at its end. For a call fresh from
  \<^verbatim>\<open>initiateCall\<close> this is the moment the keys of all participants are among the keys of those
  who joined, however many joins that takes; a call with a participant of key \<^verbatim>\<open>__proto__\<close>
  never gets there.
\<close>

lemma run_ops_snoc: "run_ops cid (ops @ [x]) s = apply_op cid (run_ops cid ops s) x"
  by (simp add: run_ops_def)

lemma joins_invariant:
  assumes "activeCalls s cid = Some c" and "status c = Initiating"
    and "list_all (invited_join c) ops"
  shows "\<exists>c'. activeCalls (run_ops cid ops s) cid = Some c' \<and>
           participants c' = participants c \<and> initiatorId c' = initiatorId c \<and>
           (\<forall>k. getProp (connectionStatus c') k =
                  (if k \<in> set (map (\<lambda>x. key_of (op_user x)) ops) \<and> k \<noteq> ''__proto__''
                   then Some Connected else getProp (connectionStatus c) k)) \<and>
           status c' = (if ops \<noteq> [] \<and> all_participants_connected c' then Active else Initiating)"
  using assms(3)
proof (induction ops rule: rev_induct)
  case Nil
  with assms show ?case by (simp add: run_ops_def)
next
  case (snoc x ops)
  from snoc.prems have inv_ops: "list_all (invited_join c) ops" and inv_x: "invited_join c x"
    by simp_all
  from snoc.IH [OF inv_ops] obtain c1 where
    live: "activeCalls (run_ops cid ops s) cid = Some c1"
    and same: "participants c1 = participants c" "initiatorId c1 = initiatorId c"
    and cs: "\<And>k. getProp (connectionStatus c1) k =
                  (if k \<in> set (map (\<lambda>x. key_of (op_user x)) ops) \<and> k \<noteq> ''__proto__''
                   then Some Connected else getProp (connectionStatus c) k)"
    and st: "status c1 = (if ops \<noteq> [] \<and> all_participants_connected c1 then Active else Initiating)"
    by blast
  from inv_x obtain now uid socketId where x: "x = Join now uid socketId"
    and invited: "uid \<in> set (participants c) \<or> initiatorId c = uid"
    by (cases x) simp_all
  let ?c2 = "c1\<lparr>connectionStatus := setProp (connectionStatus c1) (key_of uid) Connected\<rparr>"
  have mono: "all_participants_connected c1 \<Longrightarrow> all_participants_connected ?c2"
    by (auto simp: all_participants_connected_def list_all_iff getProp_setProp)
  have step: "activeCalls (run_ops cid (ops @ [x]) s) cid =
                Some (if all_participants_connected ?c2 \<and> status c1 = Initiating
                      then ?c2\<lparr>status := Active, startTime := now\<rparr> else ?c2)"
    using live invited same
    by (auto simp: run_ops_snoc x joinCall_def Let_def all_participants_connected_def)
  show ?case
    using step same cs st mono
    by (auto simp: getProp_setProp x all_participants_connected_def)
qed

lemma joins_activate_fresh_call:
  assumes "list_all (invited_join (fst (initiateCall t cid i ps ty ttl s))) ops"
  shows "map_option status
           (activeCalls (run_ops cid ops (snd (initiateCall t cid i ps ty ttl s))) cid) =
         Some (if ops \<noteq> [] \<and>
                  key_of ` set ps \<subseteq> set (map (\<lambda>x. key_of (op_user x)) ops) - {''__proto__''}
               then Active else Initiating)"
proof -
  let ?c = "fst (initiateCall t cid i ps ty ttl s)"
  let ?s = "snd (initiateCall t cid i ps ty ttl s)"
  have live: "activeCalls ?s cid = Some ?c" and init: "status ?c = Initiating"
    and parts: "participants ?c = ps"
    by (simp_all add: initiateCall_def Let_def)
  have fresh: "getProp (connectionStatus ?c) k \<noteq> Some Connected" for k
    by (simp add: initiateCall_def Let_def getProp_all_pending) (simp add: getProp_def)
  from joins_invariant [OF live init assms] obtain c' where
    c': "activeCalls (run_ops cid ops ?s) cid = Some c'"
    and same: "participants c' = participants ?c"
    and cs: "\<And>k. getProp (connectionStatus c') k =
                  (if k \<in> set (map (\<lambda>x. key_of (op_user x)) ops) \<and> k \<noteq> ''__proto__''
                   then Some Connected else getProp (connectionStatus ?c) k)"
    and st: "status c' = (if ops \<noteq> [] \<and> all_participants_connected c' then Active else Initiating)"
    by blast
  have "all_participants_connected c' \<longleftrightarrow>
          key_of ` set ps \<subseteq> set (map (\<lambda>x. key_of (op_user x)) ops) - {''__proto__''}"
    unfolding all_participants_connected_def list_all_iff same parts
    using fresh by (auto simp: cs)
  with c' st show ?thesis by simp
qed

section \<open>Leaving\<close>

text \<open>
  What \<^verbatim>\<open>leaveCall\<close> does to a live call. The leaving identity's entry becomes
  \<^verbatim>\<open>disconnected\<close> (also for an identity that was never invited; the key \<^verbatim>\<open>__proto__\<close>
  gets no entry), and the call is ended if
  and only if no key is left \<^verbatim>\<open>connected\<close>, or exactly one is and the initiator is that
  very string. A numeric initiator is never equal to a key, so a call of a numeric initiator
  is ended only when nobody is connected.
\<close>

lemma leaveCall_end_condition:
  assumes "activeCalls s cid = Some c"
  shows "activeCalls (snd (leaveCall now cid uid s)) cid = None \<longleftrightarrow>
           (let connected = map fst (filter (\<lambda>(k, st). st = Connected)
                               (setProp (connectionStatus c) (key_of uid) Disconnected))
            in connected = [] \<or> (\<exists>k. connected = [k] \<and> initiatorId c = Str k))"
  using assms
  apply (simp add: leaveCall_def Let_def endCall_def saveCallToHistory_def split: prod.splits sum.splits)
  apply (auto simp: length_Suc_conv)
  done

lemma leaveCall_numeric_end_condition:
  assumes "activeCalls s cid = Some c" and "initiatorId c = Num n"
  shows "activeCalls (snd (leaveCall now cid uid s)) cid = None \<longleftrightarrow>
           filter (\<lambda>(k, st). st = Connected)
             (setProp (connectionStatus c) (key_of uid) Disconnected) = []"
  using leaveCall_end_condition [OF assms(1), of now uid] assms(2)
  by (simp add: Let_def)

lemma leaveCall_sets_disconnected:
  assumes "activeCalls s cid = Some c"
  shows "\<exists>c1 n. fst (leaveCall now cid uid s) = Inr (c1, n) \<and>
           getProp (connectionStatus c1) (key_of uid) =
             (if key_of uid = ''__proto__'' then None else Some Disconnected) \<and>
           userConnections (snd (leaveCall now cid uid s)) uid = None"
  using assms
  by (auto simp: leaveCall_def Let_def endCall_def saveCallToHistory_def getProp_setProp
           getProp_proto foldl_delete
           split: prod.splits sum.splits)

text \<open>
  Claim C3, at an input where the service departs from it. User 1 has called user 2, both
  have joined, and user 2 leaves. The connected identities are now exactly the initiator,
  and the comment in \<^verbatim>\<open>leaveCall\<close> reads \<^verbatim>\<open>all participants left or only initiator remains\<close>;
  yet \<^verbatim>\<open>connectedUsers[0] === call.initiatorId\<close> compares the key \<^verbatim>\<open>'1'\<close> with the number
  \<^verbatim>\<open>1\<close>, the call stays in the registry with status \<^verbatim>\<open>active\<close>, and nothing is written to
  the history.
\<close>

theorem leaveCall_numeric_initiator_stays_live:
  "map_option
     (\<lambda>c. (initiatorId c, status c, getProp (connectionStatus c) (key_of (Num 1)),
           getProp (connectionStatus c) (key_of (Num 2)), connectedCount (connectionStatus c)))
     (activeCalls (snd (leaveCall 3 ''n1'' (Num 2) svc_12)) ''n1'') =
     Some (Num 1, Active, Some Connected, Some Disconnected, 1) \<and>
   history_entries (snd (leaveCall 3 ''n1'' (Num 2) svc_12)) = []"
  by (simp add: svc_12_def history_entries_def string_of_nat.simps digit_char_def scenario_defs)

section \<open>Recordings and the history\<close>

text \<open>
  Claim C5, as the service has it. \<^verbatim>\<open>endCall\<close> does not touch the recording: the ended
  call and its history entry, the last of the history, carry the recording exactly as the
  call held it when \<^verbatim>\<open>endCall\<close> ran. A recording that is in progress at that moment
  therefore reaches the history with status \<^verbatim>\<open>recording\<close>.
\<close>

theorem endCall_keeps_recording:
  assumes "activeCalls s cid = Some c"
  shows "history_entries (snd (endCall now cid s)) \<noteq> [] \<and>
         histId (last (history_entries (snd (endCall now cid s)))) = callId c \<and>
         histStatus (last (history_entries (snd (endCall now cid s)))) = Ended \<and>
         histRecording (last (history_entries (snd (endCall now cid s)))) = callRecording c \<and>
         map_option callRecording (activeCalls s cid) = Some (callRecording c) \<and>
         (case fst (endCall now cid s) of Inl e \<Rightarrow> None | Inr c1 \<Rightarrow> Some (callRecording c1)) =
           Some (callRecording c) \<and>
         (is_recording c \<longrightarrow>
            map_option recStatus
              (histRecording (last (history_entries (snd (endCall now cid s))))) =
              Some Recording)"
  using assms
  by (simp add: history_endCall call_history_of_def)
     (simp add: endCall_live is_recording_def split: option.splits)

theorem endCall_keeps_recording_witness:
  "activeCalls svc_rec ''c1'' = Some call_rec \<and>
   is_recording call_rec \<and>
   map_option recStatus (callRecording call_rec) = Some Recording \<and>
   map_option recStatus (histRecording (last (history_entries (snd (endCall 5 ''c1'' svc_rec))))) =
     Some Recording"
proof -
  have "map_option recStatus (callRecording call_rec) = Some Recording"
    and "is_recording call_rec"
    by (simp_all add: call_rec_def is_recording_def)
  with endCall_keeps_recording [OF live_rec, of 5] live_rec show ?thesis
    by simp
qed

text \<open>
  The call of \<open>A\<close>, \<open>B\<close>, \<open>C\<close> is ended while it records: its history entry holds a
  recording whose status is still \<^verbatim>\<open>recording\<close>.
\<close>

theorem recording_in_history_counterexample:
  "map (\<lambda>h. (histId h, histStatus h, map_option recStatus (histRecording h)))
     (history_entries (snd (endCall 5 ''c1'' svc_rec))) =
     [(''c1'', Ended, Some Recording)]"
proof -
  have none: "history_entries svc_rec = []"
    by (simp add: svc_rec_def startRecording_def is_recording_def history_entries_def
          scenario_defs)
  show ?thesis
    by (simp add: history_endCall [OF live_rec] none call_history_of_def call_rec_def)
       (simp add: scenario_defs)
qed

text \<open>
  For comparison, the two other operations on a recording: \<^verbatim>\<open>stopRecording\<close> is the one that
  completes a recording in progress, and \<^verbatim>\<open>saveRecordingChunk\<close> changes no call.
\<close>

lemma stopRecording_completes:
  assumes "activeCalls s cid = Some c" and "callRecording c = Some r"
    and "recStatus r = Recording"
  shows "\<exists>r'. stopRecording now cid s =
            (Inr r', s\<lparr>activeCalls := (activeCalls s)(cid \<mapsto> c\<lparr>callRecording := Some r'\<rparr>)\<rparr>) \<and>
          recStatus r' = Completed \<and> recEndTime r' = Some now \<and> recId r' = recId r"
  using assms by (auto simp: stopRecording_def Let_def split: option.splits)

lemma saveRecordingChunk_keeps_calls:
  "activeCalls (snd (saveRecordingChunk cid chunk s)) = activeCalls s"
  by (simp add: saveRecordingChunk_def Let_def split: option.splits)

section \<open>Requests of a non-initiator\<close>

text \<open>
  Claim C6. For a live call and a requester other than its initiator, the handlers of
  \<^verbatim>\<open>call:end\<close>, \<^verbatim>\<open>call:start-recording\<close> and \<^verbatim>\<open>call:stop-recording\<close> answer the requester
  with the error \<^verbatim>\<open>Only call initiator can ...\<close>, send nothing else, and leave the whole
  service state (calls, connections, history, recording files) unchanged.
\<close>

theorem non_initiator_denied:
  assumes "activeCalls s cid = Some c" and "userId \<noteq> initiatorId c"
  shows "on_call_end now userId cid s = ([Emit ToSender (CallError OnlyInitiatorCanEnd)], s) \<and>
         on_call_start_recording now userId cid s =
           ([Emit ToSender (CallError OnlyInitiatorCanStartRecording)], s) \<and>
         on_call_stop_recording now userId cid s =
           ([Emit ToSender (CallError OnlyInitiatorCanStopRecording)], s)"
  using assms
  by (auto simp: on_call_end_def on_call_start_recording_def on_call_stop_recording_def
        getActiveCall_def)

theorem non_initiator_denied_witness:
  "activeCalls svc_rec ''c1'' = Some call_rec \<and> Str ''B'' \<noteq> initiatorId call_rec \<and>
   on_call_end 5 (Str ''B'') ''c1'' svc_rec =
     ([Emit ToSender (CallError OnlyInitiatorCanEnd)], svc_rec) \<and>
   on_call_start_recording 5 (Str ''B'') ''c1'' svc_rec =
     ([Emit ToSender (CallError OnlyInitiatorCanStartRecording)], svc_rec) \<and>
   on_call_stop_recording 5 (Str ''B'') ''c1'' svc_rec =
     ([Emit ToSender (CallError OnlyInitiatorCanStopRecording)], svc_rec)"
proof -
  have other: "Str ''B'' \<noteq> initiatorId call_rec"
    by (simp add: call_rec_def scenario_defs)
  from non_initiator_denied [OF live_rec other, of 5] live_rec other show ?thesis
    by simp
qed

section \<open>Signaling\<close>

text \<open>
  Claim C7, as the service has it. Neither \<^verbatim>\<open>handleSignaling\<close> nor the handler of
  \<^verbatim>\<open>webrtc:signal\<close> checks that the sender is invited. The only failure is an unknown call:
  then \<^verbatim>\<open>handleSignaling\<close> fails with \<^verbatim>\<open>'Call not found'\<close>, nothing is appended, nothing is
  sent, and the service state is as it was. For a live call and every sender, invited or
  not, the message is appended to the call's messages, and the signal is forwarded to the
  room of the target user when a target is given (and truthy), else to the room of the call;
  in both cases to all sockets of the room except the sender's.
\<close>

theorem signal_relayed_for_any_sender:
  "(activeCalls s cid = None \<longrightarrow>
      handleSignaling now cid ty uid payload s = (Inl CallNotFound, s) \<and>
      on_webrtc_signal now uid cid ty target payload s = ([], s)) \<and>
   (\<forall>c. activeCalls s cid = Some c \<longrightarrow>
      handleSignaling now cid ty uid payload s =
        (Inr (\<lparr>msgType = ty, msgUserId = uid, msgPayload = payload, msgTimestamp = now\<rparr>,
              c\<lparr>messages := messages c @
                   [\<lparr>msgType = ty, msgUserId = uid, msgPayload = payload,
                      msgTimestamp = now\<rparr>]\<rparr>),
         s\<lparr>activeCalls := (activeCalls s)(cid \<mapsto>
              c\<lparr>messages := messages c @
                   [\<lparr>msgType = ty, msgUserId = uid, msgPayload = payload,
                      msgTimestamp = now\<rparr>]\<rparr>)\<rparr>) \<and>
      on_webrtc_signal now uid cid ty target payload s =
        ([Emit (ToOthersIn (if truthy target then user_room (the target) else cid))
               (WebrtcSignal cid ty uid payload)],
         snd (handleSignaling now cid ty uid payload s)))"
  by (simp add: handleSignaling_def on_webrtc_signal_def Let_def)

theorem signal_relayed_for_any_sender_witness:
  "activeCalls svc_abc ''c1'' = Some call_abc \<and>
   on_webrtc_signal 4 (Str ''B'') ''c1'' ''offer'' (Some (Str ''C'')) ''sdp'' svc_abc =
     ([Emit (ToOthersIn ''user_C'') (WebrtcSignal ''c1'' ''offer'' (Str ''B'') ''sdp'')],
      snd (handleSignaling 4 ''c1'' ''offer'' (Str ''B'') ''sdp'' svc_abc)) \<and>
   on_webrtc_signal 4 (Str ''B'') ''c1'' ''offer'' None ''sdp'' svc_abc =
     ([Emit (ToOthersIn ''c1'') (WebrtcSignal ''c1'' ''offer'' (Str ''B'') ''sdp'')],
      snd (handleSignaling 4 ''c1'' ''offer'' (Str ''B'') ''sdp'' svc_abc)) \<and>
   map_option (map msgUserId \<circ> messages)
     (activeCalls (snd (handleSignaling 4 ''c1'' ''offer'' (Str ''B'') ''sdp'' svc_abc)) ''c1'') =
     Some [Str ''B''] \<and>
   activeCalls svc_abc ''c7'' = None \<and>
   handleSignaling 4 ''c7'' ''offer'' (Str ''B'') ''sdp'' svc_abc = (Inl CallNotFound, svc_abc) \<and>
   on_webrtc_signal 4 (Str ''B'') ''c7'' ''offer'' None ''sdp'' svc_abc = ([], svc_abc)"
proof -
  have empty: "messages call_abc = []"
    by (simp add: scenario_defs)
  have unknown: "activeCalls svc_abc ''c7'' = None"
    by (simp add: scenario_defs)
  from signal_relayed_for_any_sender
         [of svc_abc "''c1''" 4 "''offer''" "Str ''B''" "''sdp''" "Some (Str ''C'')"]
       signal_relayed_for_any_sender [of svc_abc "''c1''" 4 "''offer''" "Str ''B''" "''sdp''" None]
       signal_relayed_for_any_sender [of svc_abc "''c7''" 4 "''offer''" "Str ''B''" "''sdp''" None]
       live_abc empty unknown
  show ?thesis
    by (simp add: truthy_def user_room_def)
qed

text \<open>
  \<open>Z\<close> is neither a participant nor the initiator of the call of \<open>A\<close>, \<open>B\<close>, \<open>C\<close>; its signal
  succeeds and is the one message of the call.
\<close>

theorem uninvited_signal_counterexample:
  "Str ''Z'' \<notin> set (participants call_abc) \<and> Str ''Z'' \<noteq> initiatorId call_abc \<and>
   isl (fst (handleSignaling 4 ''c1'' ''offer'' (Str ''Z'') ''sdp'' svc_abc)) = False \<and>
   map_option (map msgUserId \<circ> messages)
     (activeCalls (snd (handleSignaling 4 ''c1'' ''offer'' (Str ''Z'') ''sdp'' svc_abc)) ''c1'') =
     Some [Str ''Z'']"
  by (simp add: handleSignaling_def scenario_defs)

section \<open>The keys of the connection status\<close>

lemma apply_op_not_live: "activeCalls s cid = None \<Longrightarrow> apply_op cid s x = s"
  by (cases x) (simp_all add: joinCall_def leaveCall_def)

lemma run_ops_not_live: "activeCalls s cid = None \<Longrightarrow> run_ops cid ops s = s"
  unfolding run_ops_def by (induction ops) (simp_all add: apply_op_not_live)

lemma apply_op_live:
  assumes "activeCalls s cid = Some c"
  shows "activeCalls (apply_op cid s x) cid = None \<or>
         (\<exists>c1. activeCalls (apply_op cid s x) cid = Some c1 \<and>
               participants c1 = participants c \<and> initiatorId c1 = initiatorId c \<and>
               set (keys (connectionStatus c1)) =
                 set (keys (connectionStatus c)) \<union>
                 (if writes_entry c x \<and> key_of (op_user x) \<noteq> ''__proto__''
                  then {key_of (op_user x)} else {}))"
proof (cases x)
  case (Join now uid socketId)
  with assms show ?thesis
    by (auto simp: joinCall_def Let_def keys_setProp)
next
  case (Leave now uid)
  with assms show ?thesis
    by (auto simp: leaveCall_def Let_def keys_setProp endCall_def saveCallToHistory_def
             split: prod.splits sum.splits)
qed

text \<open>
  Claim C9, as the service has it. Joins and leaves never remove a key, but they add keys:
  as long as the call is live, the key set after a sequence of joins and leaves is the key
  set before it together with the keys of every identity that left and of every invited
  identity that joined, the key \<^verbatim>\<open>__proto__\<close> excepted. It is the key set of creation only
  when all of these keys were already there; the join of the initiator while the initiator's
  key is not yet a key, and the leave of any identity whose key is not yet one, add a key.
\<close>

theorem connectionStatus_keys_after_ops:
  assumes "activeCalls s cid = Some c"
    and "activeCalls (run_ops cid ops s) cid = Some c'"
  shows "set (keys (connectionStatus c')) =
           set (keys (connectionStatus c)) \<union>
           set (map (\<lambda>x. key_of (op_user x))
                  (filter (\<lambda>x. writes_entry c x \<and> key_of (op_user x) \<noteq> ''__proto__'') ops))"
  using assms
proof (induction ops arbitrary: s c)
  case Nil
  then show ?case by (simp add: run_ops_def)
next
  case (Cons x ops)
  have run: "run_ops cid (x # ops) s = run_ops cid ops (apply_op cid s x)"
    by (simp add: run_ops_def)
  from apply_op_live [OF Cons.prems(1), of x]
  show ?case
  proof
    assume gone: "activeCalls (apply_op cid s x) cid = None"
    then have "run_ops cid ops (apply_op cid s x) = apply_op cid s x"
      by (rule run_ops_not_live)
    with run Cons.prems(2) gone show ?thesis by simp
  next
    assume "\<exists>c1. activeCalls (apply_op cid s x) cid = Some c1 \<and>
               participants c1 = participants c \<and> initiatorId c1 = initiatorId c \<and>
               set (keys (connectionStatus c1)) =
                 set (keys (connectionStatus c)) \<union>
                 (if writes_entry c x \<and> key_of (op_user x) \<noteq> ''__proto__''
                  then {key_of (op_user x)} else {})"
    then obtain c1 where c1: "activeCalls (apply_op cid s x) cid = Some c1"
      and same: "participants c1 = participants c" "initiatorId c1 = initiatorId c"
      and ks: "set (keys (connectionStatus c1)) =
                 set (keys (connectionStatus c)) \<union>
                 (if writes_entry c x \<and> key_of (op_user x) \<noteq> ''__proto__''
                  then {key_of (op_user x)} else {})"
      by blast
    have w: "writes_entry c1 = writes_entry c"
    proof
      fix y show "writes_entry c1 y = writes_entry c y"
        by (cases y) (simp_all add: same)
    qed
    from Cons.prems(2) run
    have "activeCalls (run_ops cid ops (apply_op cid s x)) cid = Some c'"
      by simp
    from Cons.IH [OF c1 this]
    have "set (keys (connectionStatus c')) =
            set (keys (connectionStatus c1)) \<union>
            set (map (\<lambda>x. key_of (op_user x))
                   (filter (\<lambda>x. writes_entry c x \<and> key_of (op_user x) \<noteq> ''__proto__'') ops))"
      by (simp add: w)
    with ks show ?thesis by auto
  qed
qed

theorem connectionStatus_keys_after_ops_witness:
  "activeCalls svc_abc ''c1'' = Some call_abc \<and>
   activeCalls (run_ops ''c1'' ops_example svc_abc) ''c1'' = Some call_after_ops \<and>
   set (keys (connectionStatus call_abc)) = {''B'', ''C''} \<and>
   set (keys (connectionStatus call_after_ops)) = {''B'', ''C'', ''A'', ''Z''}"
proof -
  have after: "activeCalls (run_ops ''c1'' ops_example svc_abc) ''c1'' = Some call_after_ops"
    by (simp add: run_ops_def ops_example_def call_after_ops_def scenario_defs)
  have before: "set (keys (connectionStatus call_abc)) = {''B'', ''C''}"
    by (simp add: keys_def scenario_defs)
  have inv: "participants call_abc = [Str ''B'', Str ''C'']" "initiatorId call_abc = Str ''A''"
    by (simp_all add: scenario_defs)
  from connectionStatus_keys_after_ops [OF live_abc after] live_abc after before inv
  show ?thesis
    by (auto simp: ops_example_def)
qed

text \<open>
  The join of the initiator \<open>A\<close> adds the key \<open>A\<close> to the keys \<open>B\<close>, \<open>C\<close> of creation.
\<close>

theorem key_set_counterexample:
  "map_option (keys \<circ> connectionStatus)
     (activeCalls (run_ops ''c1'' [Join 1 (Str ''A'') ''sock-A''] svc_abc) ''c1'') =
     Some [''B'', ''C'', ''A''] \<and>
   keys (connectionStatus call_abc) = [''B'', ''C'']"
  by (simp add: run_ops_def keys_def scenario_defs)

section \<open>Connections shared between calls\<close>

text \<open>
  Claim C10. Ending a live call deletes the entry of each of its participants from the
  service-wide map of user connections, whichever call that entry was made for; the entries
  of all other identities and all other live calls stay as they were. So a participant who
  is connected in another call that is still live loses the entry as well.
\<close>

theorem endCall_clears_userConnections:
  assumes "activeCalls s cid = Some c"
  shows "(\<forall>p \<in> set (participants c). userConnections (snd (endCall now cid s)) p = None) \<and>
         (\<forall>u. u \<notin> set (participants c) \<longrightarrow>
                userConnections (snd (endCall now cid s)) u = userConnections s u) \<and>
         (\<forall>other. other \<noteq> cid \<longrightarrow>
                activeCalls (snd (endCall now cid s)) other = activeCalls s other)"
  using assms by (simp add: endCall_live foldl_delete saveCallToHistory_def Let_def)

theorem endCall_clears_userConnections_witness:
  "activeCalls svc_two ''c1'' = Some call_abc \<and>
   Str ''B'' \<in> set (participants call_abc) \<and>
   userConnections svc_two (Str ''B'') = Some ''sock-B'' \<and>
   map_option (\<lambda>c. getProp (connectionStatus c) ''B'') (activeCalls svc_two ''c1'') =
     Some (Some Pending) \<and>
   map_option (\<lambda>c. getProp (connectionStatus c) ''B'') (activeCalls svc_two ''c2'') =
     Some (Some Connected) \<and>
   userConnections (snd (endCall 5 ''c1'' svc_two)) (Str ''B'') = None \<and>
   map_option (\<lambda>c. getProp (connectionStatus c) ''B'')
     (activeCalls (snd (endCall 5 ''c1'' svc_two)) ''c2'') = Some (Some Connected)"
proof -
  have part: "Str ''B'' \<in> set (participants call_abc)"
    by (simp add: scenario_defs)
  have conn: "userConnections svc_two (Str ''B'') = Some ''sock-B''"
    by (simp add: svc_two_def scenario_defs)
  have c1: "map_option (\<lambda>c. getProp (connectionStatus c) ''B'') (activeCalls svc_two ''c1'') =
     Some (Some Pending)"
    by (simp add: live_two) (simp add: scenario_defs)
  have c2: "map_option (\<lambda>c. getProp (connectionStatus c) ''B'') (activeCalls svc_two ''c2'') =
     Some (Some Connected)"
    by (simp add: svc_two_def scenario_defs)
  from endCall_clears_userConnections [OF live_two, of 5] part conn c1 c2 live_two
  show ?thesis by simp
qed

end
